theory Spec2Isabelle
  imports Main
begin

section \<open>TEAL values, faults and the ledger data the contract reads\<close>

text \<open>
  The contract of \<^verbatim>\<open>assets/bugfree_approval_program.py\<close> is a PyTeal expression tree.
  Each PyTeal constructor it uses is embedded as a HOL function giving the meaning TEAL
  gives to the code PyTeal emits for it; the contract is then the same tree, built from
  these functions.

  A TEAL value is a 64-bit unsigned integer or a byte string. The integer is modelled as
  an \<open>int\<close> and the range \<open>0 .. 2^64 - 1\<close> is enforced by the operations: \<open>+\<close> fails on
  overflow, \<open>-\<close> fails when the result would be negative. Nothing wraps.
\<close>

datatype teal_value = Uint int | Bytes string

datatype fault =
    ArithmeticFault
  | TypeFault
  | AssertFailed
  | GroupIndexFault
  | CondNoMatch

definition uint64_max :: int where
  "uint64_max = 2 ^ 64 - 1"

text \<open>
  The fields of a transaction the contract reads. \<open>type_enum\<close> and \<open>on_completion\<close> are
  integers, as in TEAL; the constants below are PyTeal's \<^verbatim>\<open>TxnType\<close> and
  \<^verbatim>\<open>OnComplete\<close> values.
\<close>

record txn =
  sender :: string
  type_enum :: int
  receiver :: string
  amount :: int
  application_id :: int
  on_completion :: int

text \<open>
  The evaluation context: the transaction group, given as the transactions before the
  current one, the current one, and those after it. The group is never empty and the
  current transaction is always a member of it, as on the ledger.
\<close>

record eval_context =
  preceding :: "txn list"
  current :: txn
  following :: "txn list"

definition group :: "eval_context \<Rightarrow> txn list" where
  "group c = preceding c @ [current c] @ following c"

definition group_index :: "eval_context \<Rightarrow> nat" where
  "group_index c = length (preceding c)"

text \<open>The application's global key-value store. A key that was never written is absent.\<close>

type_synonym gstate = "string \<rightharpoonup> teal_value"

text \<open>
  What running a statement gives: a fault (the program fails), a \<^verbatim>\<open>Return\<close> with its
  value (the program stops), or the state after the statement.
\<close>

datatype outcome = Failed fault | Returned int gstate | Done gstate

type_synonym expr = "eval_context \<Rightarrow> gstate \<Rightarrow> fault + teal_value"
type_synonym stmt = "eval_context \<Rightarrow> gstate \<Rightarrow> outcome"
type_synonym txn_ref = "eval_context \<Rightarrow> fault + txn"

section \<open>The PyTeal constructors\<close>

subsection \<open>Operators\<close>

fun teal_eq :: "teal_value \<Rightarrow> teal_value \<Rightarrow> fault + teal_value" where
  "teal_eq (Uint a) (Uint b) = Inr (Uint (if a = b then 1 else 0))"
| "teal_eq (Bytes a) (Bytes b) = Inr (Uint (if a = b then 1 else 0))"
| "teal_eq (Uint a) (Bytes b) = Inl TypeFault"
| "teal_eq (Bytes a) (Uint b) = Inl TypeFault"

fun teal_ge :: "teal_value \<Rightarrow> teal_value \<Rightarrow> fault + teal_value" where
  "teal_ge (Uint a) (Uint b) = Inr (Uint (if b \<le> a then 1 else 0))"
| "teal_ge (Uint a) (Bytes b) = Inl TypeFault"
| "teal_ge (Bytes a) v = Inl TypeFault"

fun teal_gt :: "teal_value \<Rightarrow> teal_value \<Rightarrow> fault + teal_value" where
  "teal_gt (Uint a) (Uint b) = Inr (Uint (if b < a then 1 else 0))"
| "teal_gt (Uint a) (Bytes b) = Inl TypeFault"
| "teal_gt (Bytes a) v = Inl TypeFault"

fun teal_plus :: "teal_value \<Rightarrow> teal_value \<Rightarrow> fault + teal_value" where
  "teal_plus (Uint a) (Uint b) =
     (if uint64_max < a + b then Inl ArithmeticFault else Inr (Uint (a + b)))"
| "teal_plus (Uint a) (Bytes b) = Inl TypeFault"
| "teal_plus (Bytes a) v = Inl TypeFault"

fun teal_minus :: "teal_value \<Rightarrow> teal_value \<Rightarrow> fault + teal_value" where
  "teal_minus (Uint a) (Uint b) =
     (if a < b then Inl ArithmeticFault else Inr (Uint (a - b)))"
| "teal_minus (Uint a) (Bytes b) = Inl TypeFault"
| "teal_minus (Bytes a) v = Inl TypeFault"

fun teal_and :: "teal_value \<Rightarrow> teal_value \<Rightarrow> fault + teal_value" where
  "teal_and (Uint a) (Uint b) = Inr (Uint (if a \<noteq> 0 \<and> b \<noteq> 0 then 1 else 0))"
| "teal_and (Uint a) (Bytes b) = Inl TypeFault"
| "teal_and (Bytes a) v = Inl TypeFault"

text \<open>A binary operator evaluates its left operand, then its right one, then applies.\<close>

definition binop ::
  "(teal_value \<Rightarrow> teal_value \<Rightarrow> fault + teal_value) \<Rightarrow> expr \<Rightarrow> expr \<Rightarrow> expr" where
  "binop f x y = (\<lambda>c s.
     case x c s of
       Inl e \<Rightarrow> Inl e
     | Inr a \<Rightarrow> (case y c s of Inl e \<Rightarrow> Inl e | Inr b \<Rightarrow> f a b))"

definition Eq :: "expr \<Rightarrow> expr \<Rightarrow> expr" where
  "Eq = binop teal_eq"

definition Ge :: "expr \<Rightarrow> expr \<Rightarrow> expr" where
  "Ge = binop teal_ge"

definition Gt :: "expr \<Rightarrow> expr \<Rightarrow> expr" where
  "Gt = binop teal_gt"

definition Add :: "expr \<Rightarrow> expr \<Rightarrow> expr" where
  "Add = binop teal_plus"

definition Minus :: "expr \<Rightarrow> expr \<Rightarrow> expr" where
  "Minus = binop teal_minus"

text \<open>
  \<^verbatim>\<open>And(a, b, c)\<close> is emitted as \<^verbatim>\<open>a; b; &&; c; &&\<close>: every argument is evaluated, there
  is no short circuit. PyTeal refuses to build an \<^verbatim>\<open>And\<close> of no arguments.
\<close>

fun And_all :: "expr list \<Rightarrow> expr" where
  "And_all [] = (\<lambda>c s. Inl TypeFault)"
| "And_all (x # xs) = foldl (binop teal_and) x xs"

subsection \<open>Constants and fields\<close>

definition Int_const :: "int \<Rightarrow> expr" where
  "Int_const n = (\<lambda>c s. Inr (Uint n))"

text \<open>
  A named integer constant of PyTeal (\<^verbatim>\<open>TxnType.Payment\<close>, \<^verbatim>\<open>OnComplete.NoOp\<close>, ...)
  pushes its number.
\<close>

definition EnumInt :: "int \<Rightarrow> expr" where
  "EnumInt n = (\<lambda>c s. Inr (Uint n))"

definition TxnType_Payment :: int where
  "TxnType_Payment = 1"

definition TxnType_ApplicationCall :: int where
  "TxnType_ApplicationCall = 6"

definition OnComplete_NoOp :: int where
  "OnComplete_NoOp = 0"

definition OnComplete_OptIn :: int where
  "OnComplete_OptIn = 1"

definition OnComplete_CloseOut :: int where
  "OnComplete_CloseOut = 2"

definition OnComplete_UpdateApplication :: int where
  "OnComplete_UpdateApplication = 4"

definition OnComplete_DeleteApplication :: int where
  "OnComplete_DeleteApplication = 5"

text \<open>
  \<^verbatim>\<open>Txn\<close> is the current transaction; \<^verbatim>\<open>Gtxn[i]\<close> is the transaction at index \<open>i\<close> of the
  group, and reading it fails when the group has no such index.
\<close>

definition Txn :: txn_ref where
  "Txn = (\<lambda>c. Inr (current c))"

definition Gtxn :: "nat \<Rightarrow> txn_ref" where
  "Gtxn i = (\<lambda>c. if i < length (group c) then Inr (group c ! i) else Inl GroupIndexFault)"

definition uint_field :: "(txn \<Rightarrow> int) \<Rightarrow> txn_ref \<Rightarrow> expr" where
  "uint_field f r = (\<lambda>c s. case r c of Inl e \<Rightarrow> Inl e | Inr t \<Rightarrow> Inr (Uint (f t)))"

definition bytes_field :: "(txn \<Rightarrow> string) \<Rightarrow> txn_ref \<Rightarrow> expr" where
  "bytes_field f r = (\<lambda>c s. case r c of Inl e \<Rightarrow> Inl e | Inr t \<Rightarrow> Inr (Bytes (f t)))"

subsection \<open>Global state\<close>

text \<open>\<^verbatim>\<open>App.globalGet\<close> of a key that is absent gives the integer 0.\<close>

definition App_globalGet :: "string \<Rightarrow> expr" where
  "App_globalGet k = (\<lambda>c s. case s k of None \<Rightarrow> Inr (Uint 0) | Some v \<Rightarrow> Inr v)"

definition App_globalPut :: "string \<Rightarrow> expr \<Rightarrow> stmt" where
  "App_globalPut k e = (\<lambda>c s.
     case e c s of Inl f \<Rightarrow> Failed f | Inr v \<Rightarrow> Done (s(k \<mapsto> v)))"

subsection \<open>Control flow\<close>

definition Return :: "expr \<Rightarrow> stmt" where
  "Return e = (\<lambda>c s.
     case e c s of
       Inl f \<Rightarrow> Failed f
     | Inr (Uint v) \<Rightarrow> Returned v s
     | Inr (Bytes b) \<Rightarrow> Failed TypeFault)"

definition Assert :: "expr \<Rightarrow> stmt" where
  "Assert e = (\<lambda>c s.
     case e c s of
       Inl f \<Rightarrow> Failed f
     | Inr (Uint v) \<Rightarrow> (if v \<noteq> 0 then Done s else Failed AssertFailed)
     | Inr (Bytes b) \<Rightarrow> Failed TypeFault)"

definition If_else :: "expr \<Rightarrow> stmt \<Rightarrow> stmt \<Rightarrow> stmt" where
  "If_else g a b = (\<lambda>c s.
     case g c s of
       Inl f \<Rightarrow> Failed f
     | Inr (Uint v) \<Rightarrow> (if v \<noteq> 0 then a c s else b c s)
     | Inr (Bytes x) \<Rightarrow> Failed TypeFault)"

text \<open>\<^verbatim>\<open>If\<close> with no else branch does nothing when the condition is 0.\<close>

definition If_then :: "expr \<Rightarrow> stmt \<Rightarrow> stmt" where
  "If_then g a = If_else g a (\<lambda>c s. Done s)"

fun Seq :: "stmt list \<Rightarrow> stmt" where
  "Seq [] = (\<lambda>c s. Done s)"
| "Seq (x # xs) = (\<lambda>c s.
     case x c s of
       Done s' \<Rightarrow> Seq xs c s'
     | Failed f \<Rightarrow> Failed f
     | Returned v s' \<Rightarrow> Returned v s')"

text \<open>\<^verbatim>\<open>Cond\<close> runs the first branch whose condition is not 0, and fails when there is none.\<close>

fun Cond :: "(expr \<times> stmt) list \<Rightarrow> stmt" where
  "Cond [] = (\<lambda>c s. Failed CondNoMatch)"
| "Cond ((g, b) # rest) = If_else g b (Cond rest)"

section \<open>The contract\<close>

text \<open>
  The definitions below are the local values of \<^verbatim>\<open>buggy_program()\<close>, in its order and
  under its names; \<open>program\<close> is the expression it returns. The decrement is modelled as
  the file has it: inside \<^verbatim>\<open>If(counter > Int(0), ...)\<close>, an \<^verbatim>\<open>If\<close> with no else branch.
\<close>

definition var_owner :: string where
  "var_owner = ''owner''"

definition var_counter :: string where
  "var_counter = ''counter''"

definition init_contract :: stmt where
  "init_contract = Seq [
     App_globalPut var_owner (bytes_field sender Txn),
     App_globalPut var_counter (Int_const 0),
     Return (Int_const 1)
   ]"

definition is_owner :: expr where
  "is_owner = Eq (bytes_field sender Txn) (App_globalGet var_owner)"

definition payment_txn :: txn_ref where
  "payment_txn = Gtxn 0"

definition app_txn :: txn_ref where
  "app_txn = Txn"

definition payment_check :: expr where
  "payment_check = Eq (uint_field type_enum payment_txn) (EnumInt TxnType_Payment)"

definition payment_receiver_check :: expr where
  "payment_receiver_check = Eq (bytes_field receiver payment_txn) (App_globalGet var_owner)"

definition app_check :: expr where
  "app_check = Eq (uint_field type_enum app_txn) (EnumInt TxnType_ApplicationCall)"

definition group_checks :: expr where
  "group_checks = And_all [
     payment_check,
     payment_receiver_check,
     app_check
   ]"

definition counter :: expr where
  "counter = App_globalGet var_counter"

definition increment_counter :: stmt where
  "increment_counter = Seq [
     Assert group_checks,
     If_else (Ge (uint_field amount payment_txn) (Int_const (10 * 1000000)))
       (App_globalPut var_counter (Add counter (Int_const 1)))
       (If_then (Gt counter (Int_const 0))
          (App_globalPut var_counter (Minus counter (Int_const 1)))),
     Return (Int_const 1)
   ]"

definition program :: stmt where
  "program = Cond [
     (Eq (uint_field application_id Txn) (Int_const 0), init_contract),
     (Eq (uint_field on_completion Txn) (EnumInt OnComplete_DeleteApplication), Return is_owner),
     (Eq (uint_field on_completion Txn) (EnumInt OnComplete_UpdateApplication), Return is_owner),
     (Eq (uint_field on_completion Txn) (EnumInt OnComplete_OptIn), Return (Int_const 1)),
     (Eq (uint_field on_completion Txn) (EnumInt OnComplete_CloseOut), Return (Int_const 1)),
     (Eq (uint_field on_completion Txn) (EnumInt OnComplete_NoOp), increment_counter)
   ]"

section \<open>The ledger's side: verdict and commit\<close>

text \<open>
  The ledger approves a call when the program returns a value that is not 0. The writes of
  a call that is not approved are discarded.
\<close>

fun approved :: "outcome \<Rightarrow> bool" where
  "approved (Returned v s') = (v \<noteq> 0)"
| "approved (Failed f) = False"
| "approved (Done s') = False"

definition evaluate :: "gstate \<Rightarrow> eval_context \<Rightarrow> gstate \<times> bool" where
  "evaluate s c =
     (case program c s of
        Returned v s' \<Rightarrow> (if v \<noteq> 0 then (s', True) else (s, False))
      | Failed f \<Rightarrow> (s, False)
      | Done s' \<Rightarrow> (s, False))"

text \<open>
  The states of a deployed instance: the creating call runs on the empty store with
  \<open>application_id = 0\<close>; every later state is the result of an accepted call.
\<close>

inductive reachable :: "gstate \<Rightarrow> bool" where
  create: "application_id (current c) = 0 \<Longrightarrow> evaluate Map.empty c = (s, True) \<Longrightarrow> reachable s"
| invoke: "reachable s \<Longrightarrow> evaluate s c = (s', True) \<Longrightarrow> reachable s'"

text \<open>The stored counter is an integer in the range of a TEAL \<open>uint64\<close>.\<close>

definition counter_ok :: "gstate \<Rightarrow> bool" where
  "counter_ok s = (\<exists>n. s var_counter = Some (Uint n) \<and> 0 \<le> n \<and> n \<le> uint64_max)"

section \<open>Example invocations\<close>

text \<open>
  Concrete transactions, groups and stores used to run the contract: a payment of \<open>a\<close>
  micro-units to the owner, an application call with a given \<open>on_completion\<close>, the
  creating call, and the store of an instance whose owner is \<open>''OWNER''\<close>.
\<close>

definition ex_payment :: "int \<Rightarrow> txn" where
  "ex_payment a = \<lparr>sender = ''PAYER'', type_enum = TxnType_Payment, receiver = ''OWNER'',
     amount = a, application_id = 0, on_completion = OnComplete_NoOp\<rparr>"

definition ex_call :: "string \<Rightarrow> int \<Rightarrow> txn" where
  "ex_call who oc = \<lparr>sender = who, type_enum = TxnType_ApplicationCall, receiver = [],
     amount = 0, application_id = 7, on_completion = oc\<rparr>"

definition ex_create :: eval_context where
  "ex_create = \<lparr>preceding = [],
     current = \<lparr>sender = ''OWNER'', type_enum = TxnType_ApplicationCall, receiver = [],
       amount = 0, application_id = 0, on_completion = OnComplete_NoOp\<rparr>,
     following = []\<rparr>"

definition ex_single :: "string \<Rightarrow> int \<Rightarrow> eval_context" where
  "ex_single who oc = \<lparr>preceding = [], current = ex_call who oc, following = []\<rparr>"

definition ex_pair :: "int \<Rightarrow> eval_context" where
  "ex_pair a = \<lparr>preceding = [ex_payment a], current = ex_call ''PAYER'' OnComplete_NoOp,
     following = []\<rparr>"

definition ex_triple :: "int \<Rightarrow> eval_context" where
  "ex_triple a = \<lparr>preceding = [ex_payment a], current = ex_call ''PAYER'' OnComplete_NoOp,
     following = [ex_payment 5]\<rparr>"

definition ex_state :: "int \<Rightarrow> gstate" where
  "ex_state n = [var_owner \<mapsto> Bytes ''OWNER'', var_counter \<mapsto> Uint n]"

text \<open>
  The store of an instance owned by somebody else, and a creating call that asks for
  \<open>DeleteApplication\<close>.
\<close>

definition ex_other_state :: "int \<Rightarrow> gstate" where
  "ex_other_state n = [var_owner \<mapsto> Bytes ''SOMEONE'', var_counter \<mapsto> Uint n]"

definition ex_create_as_delete :: eval_context where
  "ex_create_as_delete =
     ex_create\<lparr>current := (current ex_create)\<lparr>on_completion := OnComplete_DeleteApplication\<rparr>\<rparr>"

section \<open>Evaluating the contract\<close>

lemmas teal_defs = Eq_def Ge_def Gt_def Add_def Minus_def binop_def Int_const_def EnumInt_def
  uint_field_def bytes_field_def Txn_def App_globalGet_def App_globalPut_def
  Return_def Assert_def If_else_def If_then_def

lemmas enum_defs = TxnType_Payment_def TxnType_ApplicationCall_def OnComplete_NoOp_def
  OnComplete_OptIn_def OnComplete_CloseOut_def OnComplete_UpdateApplication_def
  OnComplete_DeleteApplication_def

lemmas ex_defs = ex_payment_def ex_call_def ex_create_def ex_single_def ex_pair_def
  ex_triple_def ex_state_def

lemma group_nth_0: "Gtxn 0 c = Inr (group c ! 0)"
  by (simp add: Gtxn_def group_def)

lemma group_nth_current: "group c ! group_index c = current c"
  by (simp add: group_def group_index_def)

lemma var_neq: "var_owner \<noteq> var_counter"
  by (simp add: var_owner_def var_counter_def)

lemma init_contract_eval:
  "init_contract c s =
     Returned 1 (s(var_owner \<mapsto> Bytes (sender (current c)), var_counter \<mapsto> Uint 0))"
  by (simp add: init_contract_def teal_defs)

lemma is_owner_eval:
  "s var_owner = Some (Bytes b) \<Longrightarrow>
   is_owner c s = Inr (Uint (if sender (current c) = b then 1 else 0))"
  by (simp add: is_owner_def teal_defs)

lemma group_checks_eval:
  "group_checks c s =
     (case s var_owner of
        Some (Bytes b) \<Rightarrow>
          Inr (Uint (if type_enum (group c ! 0) = TxnType_Payment \<and> receiver (group c ! 0) = b
                        \<and> type_enum (current c) = TxnType_ApplicationCall
                     then 1 else 0))
      | Some (Uint n) \<Rightarrow> Inl TypeFault
      | None \<Rightarrow> Inl TypeFault)"
  by (simp add: group_checks_def payment_check_def payment_receiver_check_def app_check_def
       app_txn_def payment_txn_def group_nth_0 teal_defs split: option.splits teal_value.splits)

lemma program_create:
  "application_id (current c) = 0 \<Longrightarrow> program c s = init_contract c s"
  by (simp add: program_def teal_defs)

lemma program_dispatch:
  "application_id (current c) \<noteq> 0 \<Longrightarrow> program c s =
     (if on_completion (current c) = OnComplete_DeleteApplication then Return is_owner c s
      else if on_completion (current c) = OnComplete_UpdateApplication then Return is_owner c s
      else if on_completion (current c) = OnComplete_OptIn then Returned 1 s
      else if on_completion (current c) = OnComplete_CloseOut then Returned 1 s
      else if on_completion (current c) = OnComplete_NoOp then increment_counter c s
      else Failed CondNoMatch)"
  by (simp add: program_def teal_defs)

lemma program_noop:
  "application_id (current c) \<noteq> 0 \<Longrightarrow> on_completion (current c) = OnComplete_NoOp \<Longrightarrow>
   program c s = increment_counter c s"
  by (simp add: program_dispatch enum_defs)

lemma increment_counter_rejected:
  "group_checks c s \<noteq> Inr (Uint 1) \<Longrightarrow> \<exists>f. increment_counter c s = Failed f"
  by (auto simp add: increment_counter_def Assert_def group_checks_eval
      split: option.splits teal_value.splits if_splits)

text \<open>What \<open>counter\<close> reads is what the store holds under \<open>var_counter\<close>.\<close>

lemma counter_reads_store:
  "s var_counter = Some (Uint n) \<Longrightarrow> counter c s = Inr (Uint n)"
  by (simp add: counter_def App_globalGet_def)

lemma increment_counter_up:
  "group_checks c s = Inr (Uint 1) \<Longrightarrow> 10000000 \<le> amount (group c ! 0) \<Longrightarrow>
   counter c s = Inr (Uint n) \<Longrightarrow>
   increment_counter c s =
     (if uint64_max < n + 1 then Failed ArithmeticFault
      else Returned 1 (s(var_counter \<mapsto> Uint (n + 1))))"
  by (simp add: increment_counter_def payment_txn_def group_nth_0 teal_defs)

lemma increment_counter_down:
  "group_checks c s = Inr (Uint 1) \<Longrightarrow> amount (group c ! 0) < 10000000 \<Longrightarrow>
   counter c s = Inr (Uint n) \<Longrightarrow>
   increment_counter c s =
     (if 0 < n then Returned 1 (s(var_counter \<mapsto> Uint (n - 1))) else Returned 1 s)"
  by (simp add: increment_counter_def payment_txn_def group_nth_0 teal_defs)

lemma increment_counter_keeps:
  assumes "counter_ok s" and "increment_counter c s = Returned v s'"
  shows "counter_ok s'"
proof -
  from assms(1) obtain n where n: "s var_counter = Some (Uint n)" "0 \<le> n" "n \<le> uint64_max"
    by (auto simp add: counter_ok_def)
  then have c: "counter c s = Inr (Uint n)"
    by (simp add: counter_def App_globalGet_def)
  have g: "group_checks c s = Inr (Uint 1)"
    using assms(2) increment_counter_rejected [of c s] by auto
  show ?thesis
  proof (cases "10000000 \<le> amount (group c ! 0)")
    case True
    with g c assms(2) n show ?thesis
      by (auto simp add: increment_counter_up counter_ok_def split: if_splits)
  next
    case False
    with g c assms(2) n show ?thesis
      by (auto simp add: increment_counter_down counter_ok_def split: if_splits)
  qed
qed

section \<open>Verdict, commit and the counter invariant\<close>

lemma evaluate_accept:
  "program c s = Returned v s' \<Longrightarrow> v \<noteq> 0 \<Longrightarrow> evaluate s c = (s', True)"
  by (simp add: evaluate_def)

lemma evaluate_reject:
  "\<not> approved (program c s) \<Longrightarrow> evaluate s c = (s, False)"
  by (cases "program c s") (simp_all add: evaluate_def)

lemma evaluate_True:
  "evaluate s c = (s', True) \<Longrightarrow> \<exists>v. program c s = Returned v s' \<and> v \<noteq> 0"
  by (cases "program c s") (auto simp add: evaluate_def split: if_splits)

lemma Return_is_owner_state:
  "Return is_owner c s = Returned v s' \<Longrightarrow> s' = s"
  by (auto simp add: Return_def split: sum.splits teal_value.splits)

lemma program_keeps_counter_ok:
  assumes "counter_ok s" and "program c s = Returned v s'" and "application_id (current c) \<noteq> 0"
  shows "counter_ok s'"
proof -
  have "program c s = Return is_owner c s \<or> program c s = Returned 1 s
      \<or> program c s = increment_counter c s \<or> program c s = Failed CondNoMatch"
    using assms(3) by (simp add: program_dispatch)
  then consider (own) "program c s = Return is_owner c s"
    | (same) "program c s = Returned 1 s"
    | (noop) "program c s = increment_counter c s"
    | (none) "program c s = Failed CondNoMatch"
    by blast
  then show ?thesis
  proof cases
    case own
    with assms(2) have "s' = s" by (simp add: Return_is_owner_state)
    with assms(1) show ?thesis by simp
  next
    case same
    with assms(1,2) show ?thesis by simp
  next
    case noop
    with assms(1,2) show ?thesis by (simp add: increment_counter_keeps)
  next
    case none
    with assms(2) show ?thesis by simp
  qed
qed

lemma create_counter_ok:
  "application_id (current c) = 0 \<Longrightarrow> program c s = Returned v s' \<Longrightarrow> counter_ok s'"
  by (auto simp add: program_create init_contract_eval counter_ok_def uint64_max_def)

lemma reachable_counter_ok: "reachable s \<Longrightarrow> counter_ok s"
proof (induction rule: reachable.induct)
  case (create c s)
  then show ?case using evaluate_True create_counter_ok by blast
next
  case (invoke s c s')
  from invoke.hyps(2) obtain v where p: "program c s = Returned v s'"
    using evaluate_True by blast
  show ?case
  proof (cases "application_id (current c) = 0")
    case True
    then show ?thesis using p by (rule create_counter_ok)
  next
    case False
    with invoke.IH p show ?thesis by (rule program_keeps_counter_ok)
  qed
qed

subsection \<open>What a call leaves alone, and when a no-op call is rejected\<close>

lemma increment_counter_owner:
  "increment_counter c s = Returned v s' \<Longrightarrow> s' var_owner = s var_owner"
  by (auto simp add: increment_counter_def payment_txn_def group_nth_0 counter_def teal_defs var_neq
      split: sum.splits teal_value.splits if_splits option.splits)

lemma increment_counter_not_done: "increment_counter c s \<noteq> Done s'"
  by (auto simp add: increment_counter_def payment_txn_def group_nth_0 counter_def teal_defs
      split: sum.splits teal_value.splits if_splits option.splits)

lemma Return_not_done: "Return e c s \<noteq> Done s'"
  by (auto simp add: Return_def split: sum.splits teal_value.splits)

lemma program_owner:
  assumes "application_id (current c) \<noteq> 0" and "program c s = Returned v s'"
  shows "s' var_owner = s var_owner"
proof -
  have "program c s = Return is_owner c s \<or> program c s = Returned 1 s
      \<or> program c s = increment_counter c s \<or> program c s = Failed CondNoMatch"
    using assms(1) by (simp add: program_dispatch)
  with assms(2) show ?thesis
    by (auto dest: Return_is_owner_state [OF sym] increment_counter_owner [OF sym])
qed

lemma program_not_done:
  assumes "application_id (current c) \<noteq> 0"
  shows "program c s \<noteq> Done s'"
proof -
  have "program c s = Return is_owner c s \<or> program c s = Returned 1 s
      \<or> program c s = increment_counter c s \<or> program c s = Failed CondNoMatch"
    using assms(1) by (simp add: program_dispatch)
  then show ?thesis
    by (auto simp add: Return_not_done increment_counter_not_done)
qed

lemma group_checks_failing:
  "type_enum (group c ! 0) \<noteq> TxnType_Payment
     \<or> s var_owner \<noteq> Some (Bytes (receiver (group c ! 0)))
     \<or> type_enum (current c) \<noteq> TxnType_ApplicationCall \<Longrightarrow>
   group_checks c s \<noteq> Inr (Uint 1)"
  by (auto simp add: group_checks_eval split: option.splits teal_value.splits)

lemma single_group_checks:
  "length (group c) < 2 \<Longrightarrow> group_checks c s \<noteq> Inr (Uint 1)"
proof -
  assume "length (group c) < 2"
  then have "preceding c = []" by (simp add: group_def)
  then have "group c ! 0 = current c" by (simp add: group_def)
  then show ?thesis
    by (auto simp add: group_checks_eval enum_defs split: option.splits teal_value.splits)
qed

lemma noop_rejected:
  assumes "application_id (current c) \<noteq> 0" and "on_completion (current c) = OnComplete_NoOp"
    and "group_checks c s \<noteq> Inr (Uint 1)"
  shows "\<not> approved (program c s) \<and> evaluate s c = (s, False)"
proof -
  from assms(3) obtain f where "increment_counter c s = Failed f"
    using increment_counter_rejected by blast
  with assms(1,2) have "program c s = Failed f" by (simp add: program_noop)
  then show ?thesis by (simp add: evaluate_def)
qed

subsection \<open>The example invocations, evaluated\<close>

lemma ex_create_eval: "evaluate Map.empty ex_create = (ex_state 0, True)"
  by (simp add: evaluate_def program_create init_contract_eval ex_defs)

lemma ex_pair_checks: "group_checks (ex_pair a) (ex_state n) = Inr (Uint 1)"
  by (simp add: group_checks_eval ex_defs group_def var_neq)

lemma ex_state_counter: "counter c (ex_state n) = Inr (Uint n)"
  by (simp add: counter_def App_globalGet_def ex_defs)

lemma ex_state_put: "(ex_state n)(var_counter \<mapsto> Uint m) = ex_state m"
  by (simp add: ex_state_def)

lemma ex_state_stored: "ex_state n var_counter = Some (Uint n)"
  by (simp add: ex_state_def)

lemma ex_pair_noop:
  "application_id (current (ex_pair a)) \<noteq> 0 \<and> on_completion (current (ex_pair a)) = OnComplete_NoOp"
  by (simp add: ex_defs)

lemma ex_pair_amount: "amount (group (ex_pair a) ! 0) = a"
  by (simp add: ex_defs group_def)

lemma ex_pair_up:
  "n + 1 \<le> uint64_max \<Longrightarrow> program (ex_pair 10000000) (ex_state n) = Returned 1 (ex_state (n + 1))"
  using increment_counter_up [OF ex_pair_checks _ ex_state_counter, of 10000000 n]
  by (simp add: program_noop ex_pair_noop ex_pair_amount ex_state_put)

lemma ex_state_reachable: "0 \<le> n \<Longrightarrow> n \<le> uint64_max \<Longrightarrow> reachable (ex_state n)"
proof (induction n rule: int_ge_induct)
  case base
  show ?case using ex_create_eval by (rule reachable.create [rotated]) (simp add: ex_defs)
next
  case (step i)
  then have r: "reachable (ex_state i)" by simp
  from step.prems have "program (ex_pair 10000000) (ex_state i) = Returned 1 (ex_state (i + 1))"
    by (rule ex_pair_up)
  then have "evaluate (ex_state i) (ex_pair 10000000) = (ex_state (i + 1), True)"
    by (simp add: evaluate_def)
  with r show ?case by (rule reachable.invoke)
qed

lemma ex_triple_noop:
  "application_id (current (ex_triple a)) \<noteq> 0
   \<and> on_completion (current (ex_triple a)) = OnComplete_NoOp"
  by (simp add: ex_defs)

lemma ex_triple_checks: "group_checks (ex_triple a) (ex_state n) = Inr (Uint 1)"
  by (simp add: group_checks_eval ex_defs group_def var_neq)

lemma ex_triple_amount: "amount (group (ex_triple a) ! 0) = a"
  by (simp add: ex_defs group_def)

section \<open>The claims\<close>

subsection \<open>C1: the counter is never negative\<close>

text \<open>
  Claim C1. In every state reachable from the creating call by accepted calls, the store
  holds an integer counter that is at least 0: no accepted call stores a negative counter.
\<close>

theorem counter_never_negative:
  "reachable s \<Longrightarrow> \<exists>n. s var_counter = Some (Uint n) \<and> 0 \<le> n"
  using reachable_counter_ok [of s] by (auto simp add: counter_ok_def)

theorem counter_never_negative_witness:
  "reachable (ex_state 2) \<and> (\<exists>n. ex_state 2 var_counter = Some (Uint n) \<and> 0 \<le> n)"
proof -
  have r: "reachable (ex_state 2)" by (rule ex_state_reachable) (simp_all add: uint64_max_def)
  with counter_never_negative [OF r] show ?thesis by simp
qed

subsection \<open>C2: counter 0 and a payment of 1_000_000\<close>

text \<open>
  Claim C2 says that a no-op call with a valid two-entry group, counter 0 and a payment of
  1_000_000 attempts \<open>counter - 1\<close> and fails with an arithmetic fault. The contract does
  not: on such a call it returns 1 and leaves the store as it was.
\<close>

theorem zero_counter_no_fault_counterexample:
  "length (group (ex_pair 1000000)) = 2
   \<and> on_completion (current (ex_pair 1000000)) = OnComplete_NoOp
   \<and> group_checks (ex_pair 1000000) (ex_state 0) = Inr (Uint 1)
   \<and> amount (group (ex_pair 1000000) ! 0) = 1000000
   \<and> counter (ex_pair 1000000) (ex_state 0) = Inr (Uint 0)
   \<and> program (ex_pair 1000000) (ex_state 0) \<noteq> Failed ArithmeticFault
   \<and> program (ex_pair 1000000) (ex_state 0) = Returned 1 (ex_state 0)"
proof -
  have "increment_counter (ex_pair 1000000) (ex_state 0) = Returned 1 (ex_state 0)"
    using increment_counter_down [OF ex_pair_checks _ ex_state_counter, of 1000000 0]
    by (simp add: ex_pair_amount)
  then have "program (ex_pair 1000000) (ex_state 0) = Returned 1 (ex_state 0)"
    by (simp add: program_noop ex_pair_noop)
  then show ?thesis
    by (simp add: ex_pair_noop ex_pair_checks ex_pair_amount ex_state_counter)
      (simp add: ex_pair_def group_def)
qed

text \<open>
  Claim C2, as the contract has it. On a no-op call with a two-entry group that passes
  \<open>group_checks\<close>, counter 0 and a payment of 1_000_000, the guard \<open>counter > 0\<close> of the
  inner \<^verbatim>\<open>If\<close> evaluates to 0, so the subtraction is not run and there is no arithmetic
  fault: the call is accepted and the store is unchanged.
\<close>

theorem zero_counter_guard_skips_decrement:
  assumes "application_id (current c) \<noteq> 0" and "on_completion (current c) = OnComplete_NoOp"
    and "length (group c) = 2" and "group_checks c s = Inr (Uint 1)"
    and "amount (group c ! 0) = 1000000" and "counter c s = Inr (Uint 0)"
  shows "Gt counter (Int_const 0) c s = Inr (Uint 0)
    \<and> program c s = Returned 1 s \<and> evaluate s c = (s, True)"
proof -
  from assms(6) have g: "Gt counter (Int_const 0) c s = Inr (Uint 0)"
    by (simp add: Gt_def binop_def Int_const_def)
  from assms(4,5,6) have "increment_counter c s = Returned 1 s"
    by (simp add: increment_counter_down)
  with assms(1,2) have "program c s = Returned 1 s" by (simp add: program_noop)
  with g show ?thesis by (simp add: evaluate_def)
qed

theorem zero_counter_guard_skips_decrement_witness:
  "Gt counter (Int_const 0) (ex_pair 1000000) (ex_state 0) = Inr (Uint 0)
   \<and> program (ex_pair 1000000) (ex_state 0) = Returned 1 (ex_state 0)
   \<and> evaluate (ex_state 0) (ex_pair 1000000) = (ex_state 0, True)"
  using zero_counter_guard_skips_decrement [of "ex_pair 1000000" "ex_state 0"]
  by (simp add: ex_pair_noop ex_pair_checks ex_pair_amount ex_state_counter)
    (simp add: ex_pair_def group_def)

subsection \<open>C3: below the threshold with counter 0\<close>

text \<open>
  Claim C3. On a no-op call whose group passes \<open>group_checks\<close>, with a payment below
  10_000_000 and counter 0, nothing is written and the call is accepted: the counter is
  still 0 afterwards.
\<close>

theorem noop_zero_counter_accepts:
  assumes "application_id (current c) \<noteq> 0" and "on_completion (current c) = OnComplete_NoOp"
    and "group_checks c s = Inr (Uint 1)" and "amount (group c ! 0) < 10000000"
    and "counter c s = Inr (Uint 0)"
  shows "program c s = Returned 1 s \<and> evaluate s c = (s, True)
    \<and> counter c (fst (evaluate s c)) = Inr (Uint 0)"
proof -
  from assms(3,4,5) have "increment_counter c s = Returned 1 s"
    by (simp add: increment_counter_down)
  with assms(1,2) have p: "program c s = Returned 1 s" by (simp add: program_noop)
  then have "evaluate s c = (s, True)" by (simp add: evaluate_def)
  with p assms(5) show ?thesis by simp
qed

theorem noop_zero_counter_accepts_witness:
  "group_checks (ex_pair 9999999) (ex_state 0) = Inr (Uint 1)
   \<and> amount (group (ex_pair 9999999) ! 0) < 10000000
   \<and> program (ex_pair 9999999) (ex_state 0) = Returned 1 (ex_state 0)
   \<and> evaluate (ex_state 0) (ex_pair 9999999) = (ex_state 0, True)
   \<and> counter (ex_pair 9999999) (fst (evaluate (ex_state 0) (ex_pair 9999999))) = Inr (Uint 0)"
  using noop_zero_counter_accepts [of "ex_pair 9999999" "ex_state 0"]
  by (simp add: ex_pair_noop ex_pair_checks ex_pair_amount ex_state_counter)

subsection \<open>C4: the size of the group\<close>

text \<open>
  Claim C4 says that a no-op call whose group does not have exactly 2 entries is rejected.
  The contract never reads the size of the group: a group of three entries whose first
  entry is a payment of 10_000_000 to the owner is accepted and the counter goes from 5
  to 6.
\<close>

theorem three_entry_group_accepted:
  "length (group (ex_triple 10000000)) = 3
   \<and> on_completion (current (ex_triple 10000000)) = OnComplete_NoOp
   \<and> evaluate (ex_state 5) (ex_triple 10000000) = (ex_state 6, True)"
proof -
  have "increment_counter (ex_triple 10000000) (ex_state 5) = Returned 1 (ex_state 6)"
    using increment_counter_up [OF ex_triple_checks _ ex_state_counter, of 10000000 5]
    by (simp add: ex_triple_amount ex_state_put uint64_max_def)
  then have "program (ex_triple 10000000) (ex_state 5) = Returned 1 (ex_state 6)"
    by (simp add: program_noop ex_triple_noop)
  then show ?thesis
    by (simp add: evaluate_def ex_triple_noop) (simp add: ex_triple_def group_def)
qed

text \<open>
  Claim C4, as the contract has it. A no-op call whose group has fewer than 2 entries is
  rejected and the store is unchanged: the group is then the call alone, \<^verbatim>\<open>Gtxn[0]\<close> is
  the call itself, and it cannot be both a payment and an application call.
\<close>

theorem single_entry_group_rejected:
  assumes "application_id (current c) \<noteq> 0" and "on_completion (current c) = OnComplete_NoOp"
    and "length (group c) < 2"
  shows "\<not> approved (program c s) \<and> evaluate s c = (s, False)"
  using assms(1,2) single_group_checks [OF assms(3)] by (rule noop_rejected)

theorem single_entry_group_rejected_witness:
  "length (group (ex_single ''PAYER'' OnComplete_NoOp)) < 2
   \<and> \<not> approved (program (ex_single ''PAYER'' OnComplete_NoOp) (ex_state 3))
   \<and> evaluate (ex_state 3) (ex_single ''PAYER'' OnComplete_NoOp) = (ex_state 3, False)"
  using single_entry_group_rejected [of "ex_single ''PAYER'' OnComplete_NoOp" "ex_state 3"]
  by (simp add: ex_single_def ex_call_def group_def enum_defs)

subsection \<open>C5: Delete and Update are for the owner\<close>

text \<open>
  Claim C5. In a store whose owner is set, a call with \<open>DeleteApplication\<close> or
  \<open>UpdateApplication\<close> is accepted exactly when its sender is the stored owner, and the
  store is the same afterwards whether the call was accepted or rejected.
\<close>

theorem owner_gates_delete_update:
  assumes "application_id (current c) \<noteq> 0"
    and "on_completion (current c) = OnComplete_DeleteApplication
         \<or> on_completion (current c) = OnComplete_UpdateApplication"
    and "s var_owner = Some (Bytes b)"
  shows "approved (program c s) = (sender (current c) = b)
    \<and> program c s = Returned (if sender (current c) = b then 1 else 0) s
    \<and> evaluate s c = (s, sender (current c) = b)"
proof -
  from assms(1,2) have "program c s = Return is_owner c s"
    by (auto simp add: program_dispatch)
  with assms(3) have "program c s = Returned (if sender (current c) = b then 1 else 0) s"
    by (simp add: Return_def is_owner_eval)
  then show ?thesis by (simp add: evaluate_def)
qed

theorem owner_gates_delete_update_witness:
  "ex_state 4 var_owner = Some (Bytes ''OWNER'')
   \<and> evaluate (ex_state 4) (ex_single ''OWNER'' OnComplete_DeleteApplication) = (ex_state 4, True)
   \<and> evaluate (ex_state 4) (ex_single ''PAYER'' OnComplete_UpdateApplication) = (ex_state 4, False)"
  using owner_gates_delete_update
      [of "ex_single ''OWNER'' OnComplete_DeleteApplication" "ex_state 4" "''OWNER''"]
    owner_gates_delete_update
      [of "ex_single ''PAYER'' OnComplete_UpdateApplication" "ex_state 4" "''OWNER''"]
  by (simp add: ex_single_def ex_call_def ex_state_def var_neq)

subsection \<open>C6: the creating call\<close>

text \<open>
  Claim C6. A call with \<open>application_id = 0\<close>, whatever its \<open>on_completion\<close>, stores
  the sender as owner and 0 as counter and is accepted. The result is the same function of
  the call for every prior store: nothing of the prior store is read.
\<close>

theorem create_initialises:
  assumes "application_id (current c) = 0"
  shows "program c s =
      Returned 1 (s(var_owner \<mapsto> Bytes (sender (current c)), var_counter \<mapsto> Uint 0))
    \<and> evaluate s c =
      (s(var_owner \<mapsto> Bytes (sender (current c)), var_counter \<mapsto> Uint 0), True)"
  using assms by (simp add: evaluate_def program_create init_contract_eval)

theorem create_initialises_witness:
  "application_id (current ex_create_as_delete) = 0
   \<and> on_completion (current ex_create_as_delete) = OnComplete_DeleteApplication
   \<and> evaluate (ex_other_state 9) ex_create_as_delete = (ex_state 0, True)"
  using create_initialises [of ex_create_as_delete "ex_other_state 9"]
  by (simp add: ex_create_as_delete_def ex_create_def ex_other_state_def ex_state_def)

subsection \<open>C7: at or above the threshold\<close>

text \<open>
  Claim C7 says that every no-op call whose group passes \<open>group_checks\<close> with a payment
  of at least 10_000_000 adds 1 to the counter and is accepted. At the largest \<open>uint64\<close>,
  a state the instance can reach, \<open>counter + 1\<close> overflows: the call fails and the
  counter stays.
\<close>

theorem increment_overflows_at_max:
  "reachable (ex_state uint64_max)
   \<and> ex_state uint64_max var_counter = Some (Uint uint64_max)
   \<and> on_completion (current (ex_pair 10000000)) = OnComplete_NoOp
   \<and> group_checks (ex_pair 10000000) (ex_state uint64_max) = Inr (Uint 1)
   \<and> amount (group (ex_pair 10000000) ! 0) = 10000000
   \<and> program (ex_pair 10000000) (ex_state uint64_max) = Failed ArithmeticFault
   \<and> evaluate (ex_state uint64_max) (ex_pair 10000000) = (ex_state uint64_max, False)"
proof -
  have r: "reachable (ex_state uint64_max)"
    by (rule ex_state_reachable) (simp_all add: uint64_max_def)
  have "increment_counter (ex_pair 10000000) (ex_state uint64_max) = Failed ArithmeticFault"
    using increment_counter_up [OF ex_pair_checks _ ex_state_counter, of 10000000 uint64_max]
    by (simp add: ex_pair_amount)
  then have "program (ex_pair 10000000) (ex_state uint64_max) = Failed ArithmeticFault"
    by (simp add: program_noop ex_pair_noop)
  with r show ?thesis
    by (simp add: evaluate_def ex_pair_noop ex_pair_checks ex_pair_amount ex_state_stored)
qed

text \<open>
  Claim C7, as the contract has it. On a no-op call whose group passes \<open>group_checks\<close>,
  with a payment of at least 10_000_000 and a stored counter \<open>n\<close> below \<open>2^64 - 1\<close>,
  the call is accepted and the store afterwards holds \<open>n + 1\<close> under \<open>var_counter\<close> and is
  otherwise the same; with a stored 5 the new counter is 6.
\<close>

theorem noop_increments:
  assumes "application_id (current c) \<noteq> 0" and "on_completion (current c) = OnComplete_NoOp"
    and "group_checks c s = Inr (Uint 1)" and "10000000 \<le> amount (group c ! 0)"
    and "s var_counter = Some (Uint n)" and "n < uint64_max"
  shows "program c s = Returned 1 (s(var_counter \<mapsto> Uint (n + 1)))
    \<and> evaluate s c = (s(var_counter \<mapsto> Uint (n + 1)), True)
    \<and> fst (evaluate s c) var_counter = Some (Uint (n + 1))"
proof -
  from assms(5) have "counter c s = Inr (Uint n)"
    by (rule counter_reads_store)
  with assms(3,4,6) have "increment_counter c s = Returned 1 (s(var_counter \<mapsto> Uint (n + 1)))"
    by (simp add: increment_counter_up)
  with assms(1,2) have "program c s = Returned 1 (s(var_counter \<mapsto> Uint (n + 1)))"
    by (simp add: program_noop)
  then show ?thesis by (simp add: evaluate_def)
qed

theorem noop_increments_witness:
  "group_checks (ex_pair 10000000) (ex_state 5) = Inr (Uint 1)
   \<and> 10000000 \<le> amount (group (ex_pair 10000000) ! 0)
   \<and> ex_state 5 var_counter = Some (Uint 5)
   \<and> program (ex_pair 10000000) (ex_state 5) = Returned 1 (ex_state 6)
   \<and> evaluate (ex_state 5) (ex_pair 10000000) = (ex_state 6, True)
   \<and> fst (evaluate (ex_state 5) (ex_pair 10000000)) var_counter = Some (Uint 6)"
  using noop_increments [of "ex_pair 10000000" "ex_state 5" 5]
  by (simp add: ex_pair_noop ex_pair_checks ex_pair_amount ex_state_stored ex_state_put
      uint64_max_def)

subsection \<open>C8: below the threshold with a positive counter\<close>

text \<open>
  Claim C8. On a no-op call whose group passes \<open>group_checks\<close>, with a payment below
  10_000_000 and a stored counter \<open>n\<close> above 0, the call is accepted and the store
  afterwards holds \<open>n - 1\<close> under \<open>var_counter\<close> and is otherwise the same; with a stored 3
  and a payment of 1_000_000 the new counter is 2.
\<close>

theorem noop_decrements:
  assumes "application_id (current c) \<noteq> 0" and "on_completion (current c) = OnComplete_NoOp"
    and "group_checks c s = Inr (Uint 1)" and "amount (group c ! 0) < 10000000"
    and "s var_counter = Some (Uint n)" and "0 < n"
  shows "program c s = Returned 1 (s(var_counter \<mapsto> Uint (n - 1)))
    \<and> evaluate s c = (s(var_counter \<mapsto> Uint (n - 1)), True)
    \<and> fst (evaluate s c) var_counter = Some (Uint (n - 1))"
proof -
  from assms(5) have "counter c s = Inr (Uint n)"
    by (rule counter_reads_store)
  with assms(3,4,6) have "increment_counter c s = Returned 1 (s(var_counter \<mapsto> Uint (n - 1)))"
    by (simp add: increment_counter_down)
  with assms(1,2) have "program c s = Returned 1 (s(var_counter \<mapsto> Uint (n - 1)))"
    by (simp add: program_noop)
  then show ?thesis by (simp add: evaluate_def)
qed

theorem noop_decrements_witness:
  "group_checks (ex_pair 1000000) (ex_state 3) = Inr (Uint 1)
   \<and> amount (group (ex_pair 1000000) ! 0) = 1000000
   \<and> ex_state 3 var_counter = Some (Uint 3)
   \<and> program (ex_pair 1000000) (ex_state 3) = Returned 1 (ex_state 2)
   \<and> evaluate (ex_state 3) (ex_pair 1000000) = (ex_state 2, True)
   \<and> fst (evaluate (ex_state 3) (ex_pair 1000000)) var_counter = Some (Uint 2)"
  using noop_decrements [of "ex_pair 1000000" "ex_state 3" 3]
  by (simp add: ex_pair_noop ex_pair_checks ex_pair_amount ex_state_stored ex_state_put)

subsection \<open>C9: a failed group check\<close>

text \<open>
  Claim C9. A no-op call is rejected, and the store unchanged, whenever a clause of
  \<open>group_checks\<close> is false: the first entry of the group is not a payment, or its
  receiver is not the stored owner, or the call itself (\<open>app_txn\<close>, the second entry of
  a two-entry group) is not an application call. The amount plays no part.
\<close>

theorem failed_group_check_rejects:
  assumes "application_id (current c) \<noteq> 0" and "on_completion (current c) = OnComplete_NoOp"
    and "type_enum (group c ! 0) \<noteq> TxnType_Payment
         \<or> s var_owner \<noteq> Some (Bytes (receiver (group c ! 0)))
         \<or> type_enum (current c) \<noteq> TxnType_ApplicationCall"
  shows "\<not> approved (program c s) \<and> evaluate s c = (s, False)"
  using assms(1,2) group_checks_failing [of c s, OF assms(3)] by (rule noop_rejected)

theorem failed_group_check_rejects_witness:
  "receiver (group (ex_pair 10000000) ! 0) = ''OWNER''
   \<and> ex_other_state 5 var_owner = Some (Bytes ''SOMEONE'')
   \<and> \<not> approved (program (ex_pair 10000000) (ex_other_state 5))
   \<and> evaluate (ex_other_state 5) (ex_pair 10000000) = (ex_other_state 5, False)"
  using failed_group_check_rejects [of "ex_pair 10000000" "ex_other_state 5"]
  by (simp add: ex_pair_noop) (simp add: ex_defs ex_other_state_def group_def var_neq)

subsection \<open>C10: only the creating call writes the owner\<close>

text \<open>
  Claim C10. A call with \<open>application_id \<noteq> 0\<close>, whatever its \<open>on_completion\<close> and
  whether accepted or rejected, leaves the stored owner as it was: both in the store the
  ledger keeps and in the store the program itself returns.
\<close>

theorem owner_written_only_by_create:
  assumes "application_id (current c) \<noteq> 0"
  shows "fst (evaluate s c) var_owner = s var_owner
    \<and> (case program c s of
          Returned v s' \<Rightarrow> s' var_owner = s var_owner
        | Done s' \<Rightarrow> s' var_owner = s var_owner
        | Failed f \<Rightarrow> True)"
  using program_owner [OF assms, of s] program_not_done [OF assms, of s]
  by (cases "program c s") (auto simp add: evaluate_def)

theorem owner_written_only_by_create_witness:
  "application_id (current (ex_pair 10000000)) = 7
   \<and> fst (evaluate (ex_state 5) (ex_pair 10000000)) = ex_state 6
   \<and> fst (evaluate (ex_state 5) (ex_pair 10000000)) var_owner = ex_state 5 var_owner"
  using owner_written_only_by_create [of "ex_pair 10000000" "ex_state 5"] ex_pair_up [of 5]
  by (simp add: ex_pair_noop evaluate_def uint64_max_def) (simp add: ex_defs)

end
